theory Spec2Isabelle
  imports Main
begin

section \<open>JavaScript strings and arrays\<close>

text \<open>
  Strings are \<^typ>\<open>string\<close> (lists of 8-bit characters); the specifiers, handler paths and
  file names of this program are ASCII. The functions below are the built-in string and
  array methods the source calls, written out.
\<close>

text \<open>\<^verbatim>\<open>s.startsWith(p)\<close>\<close>

definition startsWith :: "string \<Rightarrow> string \<Rightarrow> bool" where
  "startsWith s p = (take (length p) s = p)"

text \<open>\<^verbatim>\<open>s.split(sep)\<close> for a one-character separator: never the empty array,
  \<^verbatim>\<open>"".split("/")\<close> is \<^verbatim>\<open>[""]\<close>.\<close>

fun js_split :: "char \<Rightarrow> string \<Rightarrow> string list" where
  "js_split sep [] = [[]]"
| "js_split sep (c # cs) =
     (if c = sep then [] # js_split sep cs
      else (case js_split sep cs of
              [] \<Rightarrow> [[c]]
            | p # ps \<Rightarrow> (c # p) # ps))"

text \<open>\<^verbatim>\<open>s.includes(c)\<close> for a one-character needle.\<close>

definition includes_char :: "string \<Rightarrow> char \<Rightarrow> bool" where
  "includes_char s c = (c \<in> set s)"

text \<open>\<^verbatim>\<open>s.replace(pat, rep)\<close> with a string pattern: the first occurrence only.\<close>

fun replace_first :: "string \<Rightarrow> string \<Rightarrow> string \<Rightarrow> string" where
  "replace_first [] pat rep = (if pat = [] then rep else [])"
| "replace_first (c # cs) pat rep =
     (if startsWith (c # cs) pat then rep @ drop (length pat) (c # cs)
      else c # replace_first cs pat rep)"

text \<open>
  A JavaScript \<^verbatim>\<open>Set\<close> keeps its elements in insertion order and ignores the insertion
  of an element it already holds; \<^verbatim>\<open>Array.from(set)\<close> lists them in that order. A set is
  modelled by that list.
\<close>

definition Set_add :: "'a \<Rightarrow> 'a list \<Rightarrow> 'a list" where
  "Set_add x s = (if x \<in> set s then s else s @ [x])"

definition new_Set :: "'a list \<Rightarrow> 'a list" where
  "new_Set xs = fold Set_add xs []"

section \<open>fixModuleName\<close>

text \<open>
  \<^verbatim>\<open>const [group, packageName] = mod.split('/')\<close> binds \<^verbatim>\<open>packageName\<close> to
  \<^verbatim>\<open>undefined\<close> when the array has one element, and the template literal
  \<^verbatim>\<open>`${group}/${packageName}`\<close> renders \<^verbatim>\<open>undefined\<close> as the nine letters.
\<close>

definition fixModuleName :: "string \<Rightarrow> string" where
  "fixModuleName mod' =
     (if startsWith mod' ''@'' then
        (case js_split (CHR ''/'') mod' of
           group' # packageName # _ \<Rightarrow> group' @ ''/'' @ packageName
         | [group'] \<Rightarrow> group' @ ''/'' @ ''undefined''
         | [] \<Rightarrow> ''undefined/undefined'')
      else
        (case js_split (CHR ''/'') mod' of
           packageName # _ \<Rightarrow> packageName
         | [] \<Rightarrow> ''undefined''))"

text \<open>
  The normalizer as the specification words it: the first two \<^verbatim>\<open>/\<close>-delimited segments
  joined by \<^verbatim>\<open>/\<close> for a scoped specifier, the first segment otherwise.
\<close>

fun join_slash :: "string list \<Rightarrow> string" where
  "join_slash [] = []"
| "join_slash [s] = s"
| "join_slash (s # t # ss) = s @ ''/'' @ join_slash (t # ss)"

definition normalize_spec :: "string \<Rightarrow> string" where
  "normalize_spec specifier =
     (if startsWith specifier ''@'' then join_slash (take 2 (js_split (CHR ''/'') specifier))
      else join_slash (take 1 (js_split (CHR ''/'') specifier)))"

section \<open>The dependency filter of getExternalModules\<close>

record config =
  forceInclude :: "string list"
  forceExclude :: "string list"

text \<open>
  The last statements of \<^verbatim>\<open>getExternalModules\<close>: the lists of specifiers read from the
  build graph are flattened, built-ins removed, names fixed, the result put in a
  \<^verbatim>\<open>Set\<close>, the default and excluded modules filtered out and \<^verbatim>\<open>forceInclude\<close>
  concatenated. \<^verbatim>\<open>isBuiltinModule\<close> is the imported package \<^verbatim>\<open>is-builtin-module\<close> and
  \<^verbatim>\<open>DEFAULT_AWS_MODULES\<close> a constant of \<^verbatim>\<open>./constants\<close>; both are parameters.
\<close>

definition filterImports ::
  "(string \<Rightarrow> bool) \<Rightarrow> string list \<Rightarrow> config \<Rightarrow> string list list \<Rightarrow> string list" where
  "filterImports isBuiltinModule DEFAULT_AWS_MODULES cfg listsOfMods =
     (let imports = new_Set (map fixModuleName
                       (filter (\<lambda>module. \<not> isBuiltinModule module) (concat listsOfMods)))
      in filter (\<lambda>dep. dep \<notin> set DEFAULT_AWS_MODULES \<and> dep \<notin> set (forceExclude cfg)) imports
         @ forceInclude cfg)"

section \<open>Values, errors and effects\<close>

text \<open>
  A value the caller can pass where a string or an array of strings is declared: the test
  suite passes the number 123.
\<close>

datatype js_value =
    JString string
  | JNumber int
  | JBoolean bool
  | JNull
  | JUndefined
  | JArray "js_value list"

datatype js_error = TypeError | FsError | ImportError | BuildError

text \<open>A function declaration of the service: with a \<^verbatim>\<open>handler\<close> property, or without
  one (an image).\<close>

datatype layer = Layer (Ref: string)

record function_with_config =
  handler :: string
  layers :: "layer list option"
  shouldLayer :: "bool option"

datatype function_definition =
    FunctionDefinitionHandler function_with_config
  | FunctionDefinitionImage

text \<open>
  What the program reads of the \<^verbatim>\<open>Serverless\<close> instance:
  \<^verbatim>\<open>Object.values(sls.service.functions)\<close>,
  \<^verbatim>\<open>sls.service.custom?.['esbuild-layers']?.backupFileType\<close>,
  \<^verbatim>\<open>sls.service.custom?.esbuild?.plugins\<close> and \<^verbatim>\<open>sls.service.custom?.esbuild?.loader\<close>.
\<close>

record serverless =
  service_functions :: "function_definition list"
  custom_backupFileType :: "string option"
  custom_esbuild_plugins :: "string option"
  custom_esbuild_loader :: "(string \<times> string) list option"

datatype plugin = Plugin (name: string) (behaviour: nat)

text \<open>The default export of the plugin file: an array of plugins, or a value that has no
  \<^verbatim>\<open>filter\<close> method and cannot be spread (\<^verbatim>\<open>undefined\<close> when the file has no default
  export).\<close>

datatype plugin_export = PluginArray "plugin list" | NotIterable

record build_options =
  loader :: "(string \<times> string) list option"
  entryPoints :: "string list"
  plugins :: "plugin list"
  metafile :: bool
  bundle_flag :: bool
  platform :: string
  logLevel :: string
  outdir :: string

record import_record =
  path :: string
  original :: "string option"

text \<open>\<^verbatim>\<open>result.metafile\<close>: the entries of \<^verbatim>\<open>inputs\<close> and of \<^verbatim>\<open>outputs\<close>, each key with its
  \<^verbatim>\<open>imports\<close>.\<close>

record Metafile =
  inputs :: "(string \<times> import_record list) list"
  outputs :: "(string \<times> import_record list) list"

text \<open>
  The world outside the program: the packages \<^verbatim>\<open>glob\<close> (the \<^verbatim>\<open>name\<close> of each path it
  matches), \<^verbatim>\<open>node:fs\<close>, \<^verbatim>\<open>node:path\<close>, \<^verbatim>\<open>esbuild\<close>, \<^verbatim>\<open>esbuild-node-externals\<close>,
  \<^verbatim>\<open>is-builtin-module\<close>, the dynamic \<^verbatim>\<open>import\<close>, and the constant of \<^verbatim>\<open>./constants\<close>.
  \<^verbatim>\<open>None\<close> is a rejected promise. \<open>file_exists\<close> is the disk itself; the program never
  asks it.
\<close>

record env =
  glob :: "string \<Rightarrow> string list"
  readdir :: "string \<Rightarrow> string list option"
  path_resolve :: "string list \<Rightarrow> string"
  path_join :: "string list \<Rightarrow> string"
  process_cwd :: string
  file_exists :: "string \<Rightarrow> bool"
  import_default :: "string \<Rightarrow> plugin_export option"
  nodeExternalsPlugin :: plugin
  esbuild_build :: "build_options \<Rightarrow> Metafile option"
  isBuiltinModule :: "string \<Rightarrow> bool"
  DEFAULT_AWS_MODULES :: "string list"

text \<open>What the program does to the world, in order.\<close>

datatype event =
    Glob string
  | Readdir string
  | Import string
  | Build build_options
  | ConsoleErrorImage
  | LoggerError string
  | ConsoleErrorErr js_error

type_synonym 'a io = "(js_error + 'a) \<times> event list"

section \<open>globPromise\<close>

text \<open>\<^verbatim>\<open>\w\<close>\<close>

definition word_char :: "char \<Rightarrow> bool" where
  "word_char c =
     (let n = (of_char c :: nat)
      in (48 \<le> n \<and> n \<le> 57) \<or> (65 \<le> n \<and> n \<le> 90) \<or> (97 \<le> n \<and> n \<le> 122) \<or> n = 95)"

text \<open>The characters \<^verbatim>\<open>.\<close> does not match in a regular expression.\<close>

definition line_terminator :: "char \<Rightarrow> bool" where
  "line_terminator c = (c = CHR 0x0A \<or> c = CHR 0x0D)"

text \<open>
  \<^verbatim>\<open>pattern.replace(/\.(?!(?:j|t)sx?$)\w+$/, '.@(ts|js)?(x)')\<close>. A dot followed by word
  characters up to the end of the string is the last dot of the string; the lookahead
  refuses the extensions \<^verbatim>\<open>js\<close>, \<^verbatim>\<open>jsx\<close>, \<^verbatim>\<open>ts\<close> and \<^verbatim>\<open>tsx\<close>.
\<close>

definition replace_extension :: "string \<Rightarrow> string" where
  "replace_extension pattern =
     (let ext = rev (takeWhile (\<lambda>c. c \<noteq> CHR ''.'') (rev pattern))
      in if length ext < length pattern \<and> ext \<noteq> [] \<and> list_all word_char ext
            \<and> ext \<notin> set [''js'', ''jsx'', ''ts'', ''tsx'']
         then take (length pattern - length ext - 1) pattern @ ''.@(ts|js)?(x)''
         else pattern)"

text \<open>
  \<^verbatim>\<open>pattern.replace(/(.+)\/.+$/, (_full, match) => match)\<close>. The match lies in the last
  line of the string, starts where that line starts, and the greedy group ends before the
  last \<^verbatim>\<open>/\<close> that has a character on each side.
\<close>

definition replace_dirname :: "string \<Rightarrow> string" where
  "replace_dirname pattern =
     (let lastLine = rev (takeWhile (\<lambda>c. \<not> line_terminator c) (rev pattern));
          before = take (length pattern - length lastLine) pattern;
          slashes = filter (\<lambda>j. lastLine ! j = CHR ''/'') [1 ..< length lastLine - 1]
      in if slashes = [] then pattern else before @ take (last slashes) lastLine)"

definition basePath :: "string \<Rightarrow> string" where
  "basePath pattern = (if includes_char pattern (CHR ''/'') then replace_dirname pattern else [])"

text \<open>A value without a \<^verbatim>\<open>replace\<close> method makes the asynchronous function reject.\<close>

fun globPromise :: "env \<Rightarrow> js_value \<Rightarrow> string list io" where
  "globPromise env (JString pattern) =
     (Inr (map (\<lambda>p_name. path_join env [basePath pattern, p_name])
             (glob env (replace_extension pattern))),
      [Glob (replace_extension pattern)])"
| "globPromise env _ = (Inl TypeError, [])"

section \<open>findEntriesSpecified\<close>

text \<open>\<^verbatim>\<open>await Promise.all(promises)\<close>: every promise has been started; the first rejection
  rejects the whole.\<close>

fun Promise_all :: "'a io list \<Rightarrow> 'a list io" where
  "Promise_all [] = (Inr [], [])"
| "Promise_all ((r, ev) # ps) =
     (case Promise_all ps of
        (rs, evs) \<Rightarrow>
          (case r of
             Inl e \<Rightarrow> (Inl e, ev @ evs)
           | Inr v \<Rightarrow> (case rs of Inl e \<Rightarrow> (Inl e, ev @ evs) | Inr vs \<Rightarrow> (Inr (v # vs), ev @ evs))))"

definition findEntriesSpecified :: "env \<Rightarrow> js_value \<Rightarrow> string list io" where
  "findEntriesSpecified env specifiedEntries =
     (let entries = (case specifiedEntries of
                       JString s \<Rightarrow> JArray [specifiedEntries]
                     | _ \<Rightarrow> specifiedEntries)
      in case entries of
           JArray es \<Rightarrow>
             if length es = 0 then (Inr [], [])
             else (case Promise_all (map (globPromise env) es) of
                     (Inl e, ev) \<Rightarrow> (Inl e, ev)
                   | (Inr allMapped, ev) \<Rightarrow> (Inr (concat allMapped), ev))
         | _ \<Rightarrow> (Inr [], []))"

section \<open>resolvedEntries\<close>

text \<open>
  \<^verbatim>\<open>handler.match(/^(((?:[^\/\n]+\/)+)?[^.]+(.jsx?|.tsx?)?)/)\<close>, read in the order the
  matcher tries: the folder group takes as many \<^verbatim>\<open>segment/\<close> repetitions as it can and
  gives them back one at a time, until the character that follows is not a dot; then
  \<^verbatim>\<open>[^.]+\<close> takes every character up to the next dot and the extension group takes
  what it can. Each repetition of the folder group is determined by the string: a
  non-empty run without \<^verbatim>\<open>/\<close> and newline that ends at a \<^verbatim>\<open>/\<close>.
\<close>

definition folder_prefixes :: "string \<Rightarrow> string list" where
  "folder_prefixes s =
     (let parts = js_split (CHR ''/'') s;
          most = length (takeWhile (\<lambda>p. p \<noteq> [] \<and> CHR 0x0A \<notin> set p) (butlast parts))
      in map (\<lambda>k. concat (map (\<lambda>p. p @ ''/'') (take k parts))) (rev [1 ..< Suc most]))"

text \<open>\<^verbatim>\<open>(.jsx?|.tsx?)?\<close> at the start of \<open>s\<close>: the text it matches, empty when it is
  skipped.\<close>

definition match_extension :: "string \<Rightarrow> string" where
  "match_extension s =
     (case s of
        c0 # c1 # c2 # rest \<Rightarrow>
          if \<not> line_terminator c0 \<and> (c1 = CHR ''j'' \<or> c1 = CHR ''t'') \<and> c2 = CHR ''s''
          then (if startsWith rest ''x'' then take 4 s else take 3 s)
          else []
      | _ \<Rightarrow> [])"

text \<open>\<^verbatim>\<open>[^.]+(.jsx?|.tsx?)?\<close> at the start of \<open>s\<close>.\<close>

definition match_name :: "string \<Rightarrow> string option" where
  "match_name s =
     (let nm = takeWhile (\<lambda>c. c \<noteq> CHR ''.'') s
      in if nm = [] then None else Some (nm @ match_extension (drop (length nm) s)))"

text \<open>The result of \<^verbatim>\<open>match\<close>: \<^verbatim>\<open>null\<close>, or the whole match \<^verbatim>\<open>match[0]\<close> with the
  folder group \<^verbatim>\<open>match[2]\<close>, which is \<^verbatim>\<open>undefined\<close> when the group was skipped.\<close>

definition handler_match :: "string \<Rightarrow> (string \<times> string option) option" where
  "handler_match h =
     (case filter (\<lambda>f. match_name (drop (length f) h) \<noteq> None) (folder_prefixes h) of
        f # _ \<Rightarrow> (case match_name (drop (length f) h) of
                    Some m \<Rightarrow> Some (f @ m, Some f)
                  | None \<Rightarrow> None)
      | [] \<Rightarrow> (case match_name h of
                 Some m \<Rightarrow> Some (m, None)
               | None \<Rightarrow> None))"

text \<open>\<^verbatim>\<open>folderName.replace(/\/$/, '')\<close>\<close>

definition strip_trailing_slash :: "string \<Rightarrow> string" where
  "strip_trailing_slash s = (if s \<noteq> [] \<and> last s = CHR ''/'' then butlast s else s)"

text \<open>
  The fallback of \<^verbatim>\<open>resolvedEntries\<close>, taken when the pattern matched no file.
  \<^verbatim>\<open>filteredFiles[0]\<close> of an empty array is \<^verbatim>\<open>undefined\<close>, on which \<^verbatim>\<open>path.join\<close>
  throws a \<^verbatim>\<open>TypeError\<close>.
\<close>

definition fallbackEntry :: "env \<Rightarrow> string \<Rightarrow> string \<Rightarrow> string list \<Rightarrow> string list io" where
  "fallbackEntry env backupFileType handler' newEntries =
     (case handler_match handler' of
        None \<Rightarrow> (Inr newEntries, [])
      | Some (handlerName, group2) \<Rightarrow>
          (let folderName = (case group2 of None \<Rightarrow> [] | Some f \<Rightarrow> f);
               dir = path_resolve env [strip_trailing_slash folderName]
           in case readdir env dir of
                None \<Rightarrow> (Inl FsError, [Readdir dir])
              | Some files \<Rightarrow>
                  (let fileName = replace_first handlerName folderName [];
                       filteredFiles = filter (\<lambda>file. startsWith file fileName) files
                   in if length filteredFiles > 1
                      then (Inr (Set_add (path_resolve env
                                   [path_join env [folderName, fileName @ ''.'' @ backupFileType]])
                                  newEntries),
                            [Readdir dir])
                      else (case filteredFiles of
                              [] \<Rightarrow> (Inl TypeError, [Readdir dir])
                            | file # _ \<Rightarrow>
                                (Inr (Set_add (path_resolve env [path_join env [folderName, file]])
                                       newEntries),
                                 [Readdir dir])))))"

text \<open>The body of the loop over the declared functions.\<close>

definition resolveFunction ::
  "env \<Rightarrow> string \<Rightarrow> string \<Rightarrow> function_definition \<Rightarrow> string list \<Rightarrow> string list io" where
  "resolveFunction env backupFileType layerRefName func newEntries =
     (case func of
        FunctionDefinitionImage \<Rightarrow> (Inr newEntries, [ConsoleErrorImage])
      | FunctionDefinitionHandler fd \<Rightarrow>
          (let layers' = (case layers fd of None \<Rightarrow> [] | Some ls \<Rightarrow> ls);
               shouldLayer' = (case shouldLayer fd of None \<Rightarrow> True | Some b \<Rightarrow> b)
           in if \<not> shouldLayer' then (Inr newEntries, [])
              else if \<not> list_ex (\<lambda>layer. Ref layer = layerRefName) layers'
              then (Inr newEntries, [])
              else (case findEntriesSpecified env (JArray [JString (handler fd)]) of
                      (Inl e, ev) \<Rightarrow> (Inl e, ev)
                    | (Inr matchedSpecifiedEntries, ev) \<Rightarrow>
                        (let added = fold (\<lambda>entry. Set_add (path_resolve env [entry]))
                                       matchedSpecifiedEntries newEntries
                         in if length matchedSpecifiedEntries = 0
                            then (case fallbackEntry env backupFileType (handler fd) added of
                                    (r, ev') \<Rightarrow> (r, ev @ ev'))
                            else (Inr added, ev)))))"

fun resolveLoop ::
  "env \<Rightarrow> string \<Rightarrow> string \<Rightarrow> function_definition list \<Rightarrow> string list \<Rightarrow> string list io" where
  "resolveLoop env backupFileType layerRefName [] newEntries = (Inr newEntries, [])"
| "resolveLoop env backupFileType layerRefName (func # funcs) newEntries =
     (case resolveFunction env backupFileType layerRefName func newEntries of
        (Inl e, ev) \<Rightarrow> (Inl e, ev)
      | (Inr newEntries', ev) \<Rightarrow>
          (case resolveLoop env backupFileType layerRefName funcs newEntries' of
             (r, ev') \<Rightarrow> (r, ev @ ev')))"

definition backupFileType_of :: "serverless \<Rightarrow> string" where
  "backupFileType_of sls = (case custom_backupFileType sls of None \<Rightarrow> ''default'' | Some b \<Rightarrow> b)"

definition resolvedEntries :: "env \<Rightarrow> serverless \<Rightarrow> string \<Rightarrow> string list io" where
  "resolvedEntries env sls layerRefName =
     resolveLoop env (backupFileType_of sls) layerRefName (service_functions sls) []"

section \<open>getExternalModules\<close>

definition notEmpty :: "'a option \<Rightarrow> bool" where
  "notEmpty v = (v \<noteq> None)"

text \<open>
  The value of \<^verbatim>\<open>modules\<close> after the \<^verbatim>\<open>try\<close>/\<^verbatim>\<open>catch\<close>. The assignment from the import
  happens before \<^verbatim>\<open>modules.filter\<close> is called, so a default export without \<^verbatim>\<open>filter\<close>
  stays in \<^verbatim>\<open>modules\<close> although the error is caught.
\<close>

definition loadPlugins :: "env \<Rightarrow> string option \<Rightarrow> plugin_export \<times> event list" where
  "loadPlugins env pluginFile =
     (case pluginFile of
        None \<Rightarrow> (PluginArray [], [])
      | Some file \<Rightarrow>
          if file = [] then (PluginArray [], [])
          else (let resolvedPath = path_resolve env [process_cwd env, file];
                    message = ''Unable to import your plugin file ('' @ file @ '') due to error:''
                in case import_default env resolvedPath of
                     None \<Rightarrow>
                       (PluginArray [],
                        [Import resolvedPath, LoggerError message, ConsoleErrorErr ImportError])
                   | Some (PluginArray ms) \<Rightarrow>
                       (PluginArray (filter (\<lambda>m. name m \<noteq> ''node-externals'') ms),
                        [Import resolvedPath])
                   | Some NotIterable \<Rightarrow>
                       (NotIterable,
                        [Import resolvedPath, LoggerError message, ConsoleErrorErr TypeError])))"

definition importedModules :: "Metafile \<Rightarrow> string list list" where
  "importedModules m = map (\<lambda>(key, imports). map path imports) (outputs m)"

definition requiredModules :: "Metafile \<Rightarrow> string list list" where
  "requiredModules m =
     map (\<lambda>(key, imports).
            map the (filter notEmpty
              (map original (filter (\<lambda>i. startsWith (path i) ''node_modules'') imports))))
         (filter (\<lambda>(key, imports). \<not> startsWith key ''node_modules'') (inputs m))"

definition buildOptions :: "env \<Rightarrow> serverless \<Rightarrow> string list \<Rightarrow> plugin list \<Rightarrow> build_options" where
  "buildOptions env sls entries modules =
     \<lparr> loader = custom_esbuild_loader sls,
       entryPoints = entries,
       plugins = nodeExternalsPlugin env # modules,
       metafile = True,
       bundle_flag = True,
       platform = ''node'',
       logLevel = ''silent'',
       outdir = ''.serverless/tmp_build'' \<rparr>"

definition getExternalModules :: "env \<Rightarrow> serverless \<Rightarrow> config \<Rightarrow> string \<Rightarrow> string list io" where
  "getExternalModules env sls cfg layerRefName =
     (case resolvedEntries env sls layerRefName of
        (Inl e, ev) \<Rightarrow> (Inl e, ev)
      | (Inr entries, ev) \<Rightarrow>
          if length entries = 0 then (Inr [], ev)
          else (case loadPlugins env (custom_esbuild_plugins sls) of
                  (NotIterable, ev2) \<Rightarrow> (Inl TypeError, ev @ ev2)
                | (PluginArray modules, ev2) \<Rightarrow>
                    (let options = buildOptions env sls entries modules
                     in case esbuild_build env options of
                          None \<Rightarrow> (Inl BuildError, ev @ ev2 @ [Build options])
                        | Some result \<Rightarrow>
                            (Inr (filterImports (isBuiltinModule env) (DEFAULT_AWS_MODULES env) cfg
                                    (importedModules result @ requiredModules result)),
                             ev @ ev2 @ [Build options]))))"

section \<open>An example service\<close>

text \<open>
  A project in the directory \<^verbatim>\<open>/w\<close> with five folders:
  \<^verbatim>\<open>src\<close> holds \<^verbatim>\<open>hello.ts\<close>; \<^verbatim>\<open>lib\<close> holds \<^verbatim>\<open>util.py\<close>; \<^verbatim>\<open>api\<close> holds
  \<^verbatim>\<open>hello.py\<close> and \<^verbatim>\<open>hello.txt\<close>; \<^verbatim>\<open>jobs\<close> holds \<^verbatim>\<open>other.txt\<close>; \<^verbatim>\<open>pkg\<close> holds
  the folder \<^verbatim>\<open>a\<close> with \<^verbatim>\<open>index.ts\<close>. So the TypeScript and JavaScript files are
  \<^verbatim>\<open>src/hello.ts\<close> and \<^verbatim>\<open>pkg/a/index.ts\<close>, and glob matches nothing else.
  On the relative paths used here, \<open>example_resolve\<close> and \<open>example_join\<close> return what
  \<^verbatim>\<open>path.resolve\<close> and \<^verbatim>\<open>path.join\<close> return in \<^verbatim>\<open>/w\<close>. No plugin file can be imported.
  The bundler reports two imports of \<^verbatim>\<open>uuid\<close> sub-paths, one of \<^verbatim>\<open>aws-sdk\<close> and
  one of the built-in \<^verbatim>\<open>fs\<close>.
\<close>

definition example_resolve :: "string list \<Rightarrow> string" where
  "example_resolve segments =
     (case segments of
        [p] \<Rightarrow> if p = [] then ''/w'' else ''/w/'' @ p
      | [dir, p] \<Rightarrow> dir @ ''/'' @ p
      | _ \<Rightarrow> ''/w'')"

definition example_join :: "string list \<Rightarrow> string" where
  "example_join segments =
     (case segments of
        [dir, p] \<Rightarrow> if dir = [] then p
                    else if last dir = CHR ''/'' then dir @ p
                    else dir @ ''/'' @ p
      | _ \<Rightarrow> concat segments)"

definition example_metafile :: Metafile where
  "example_metafile =
     \<lparr> inputs =
         [(''src/hello.ts'',
             [\<lparr> path = ''node_modules/uuid/v4.js'', original = Some ''uuid/v4'' \<rparr>,
              \<lparr> path = ''node_modules/uuid/v5.js'', original = Some ''uuid/v5'' \<rparr>,
              \<lparr> path = ''src/local.ts'', original = Some ''./local'' \<rparr>]),
          (''node_modules/uuid/v4.js'',
             [\<lparr> path = ''node_modules/uuid/lib/rng.js'', original = Some ''./lib/rng'' \<rparr>])],
       outputs =
         [(''.serverless/tmp_build/hello.js'',
             [\<lparr> path = ''aws-sdk'', original = None \<rparr>,
              \<lparr> path = ''fs'', original = None \<rparr>])] \<rparr>"

definition example_env :: env where
  "example_env =
     \<lparr> glob = (\<lambda>pattern.
         if pattern = ''src/hello.@(ts|js)?(x)'' then [''hello.ts'']
         else if pattern = ''pkg/*/index.@(ts|js)?(x)'' then [''index.ts'']
         else []),
       readdir = (\<lambda>dir.
         if dir = ''/w/src'' then Some [''hello.ts'']
         else if dir = ''/w/lib'' then Some [''util.py'']
         else if dir = ''/w/api'' then Some [''hello.py'', ''hello.txt'']
         else if dir = ''/w/jobs'' then Some [''other.txt'']
         else if dir = ''/w/pkg'' then Some [''a'']
         else if dir = ''/w/pkg/a'' then Some [''index.ts'']
         else None),
       path_resolve = example_resolve,
       path_join = example_join,
       process_cwd = ''/w'',
       file_exists = (\<lambda>p. p \<in> set [''/w/src/hello.ts'', ''/w/lib/util.py'', ''/w/api/hello.py'',
                                      ''/w/api/hello.txt'', ''/w/jobs/other.txt'',
                                      ''/w/pkg/a/index.ts'']),
       import_default = (\<lambda>file. None),
       nodeExternalsPlugin = Plugin ''node-externals'' 0,
       esbuild_build = (\<lambda>options. Some example_metafile),
       isBuiltinModule = (\<lambda>module. module \<in> set [''fs'', ''path'', ''node:fs'', ''node:path'']),
       DEFAULT_AWS_MODULES = [''aws-sdk''] \<rparr>"

definition example_function :: "string \<Rightarrow> string \<Rightarrow> function_definition" where
  "example_function handler' layerRef =
     FunctionDefinitionHandler
       \<lparr> handler = handler', layers = Some [Layer layerRef], shouldLayer = None \<rparr>"

definition example_service :: "function_definition list \<Rightarrow> serverless" where
  "example_service funcs =
     \<lparr> service_functions = funcs,
       custom_backupFileType = None,
       custom_esbuild_plugins = Some ''plugins.js'',
       custom_esbuild_loader = None \<rparr>"

definition example_config :: config where
  "example_config = \<lparr> forceInclude = [''lodash'', ''uuid''], forceExclude = [''uuid''] \<rparr>"

section \<open>Notions used by the properties\<close>

text \<open>
  A declared function is assigned to a layer when it has a handler, its \<^verbatim>\<open>shouldLayer\<close>
  flag is not \<^verbatim>\<open>false\<close>, and one of its layer references is the layer.
\<close>

definition layered_for :: "string \<Rightarrow> function_definition \<Rightarrow> bool" where
  "layered_for layerId func =
     (case func of
        FunctionDefinitionImage \<Rightarrow> False
      | FunctionDefinitionHandler fd \<Rightarrow>
          shouldLayer fd \<noteq> Some False \<and>
          list_ex (\<lambda>layer. Ref layer = layerId) (case layers fd of None \<Rightarrow> [] | Some ls \<Rightarrow> ls))"

text \<open>The events of the extraction proper: loading the plugin file and calling the
  bundler.\<close>

definition is_bundler_call :: "event \<Rightarrow> bool" where
  "is_bundler_call e = (case e of Build options \<Rightarrow> True | Import file \<Rightarrow> True | _ \<Rightarrow> False)"

definition empty_config :: config where
  "empty_config = \<lparr> forceInclude = [], forceExclude = [] \<rparr>"

text \<open>The kinds of value \<^verbatim>\<open>findEntriesSpecified\<close> tells apart (\<^verbatim>\<open>typeof v === 'string'\<close>,
  \<^verbatim>\<open>Array.isArray(v)\<close>), and an array all of whose elements are strings.\<close>

definition is_string :: "js_value \<Rightarrow> bool" where
  "is_string v = (case v of JString s \<Rightarrow> True | _ \<Rightarrow> False)"

definition is_array :: "js_value \<Rightarrow> bool" where
  "is_array v = (case v of JArray es \<Rightarrow> True | _ \<Rightarrow> False)"

definition is_sequence_of_strings :: "js_value \<Rightarrow> bool" where
  "is_sequence_of_strings v = (case v of JArray es \<Rightarrow> list_all is_string es | _ \<Rightarrow> False)"

text \<open>What a failed import of the plugin file leaves in the log.\<close>

definition import_failure_events :: "env \<Rightarrow> string \<Rightarrow> event list" where
  "import_failure_events env file =
     [Import (path_resolve env [process_cwd env, file]),
      LoggerError (''Unable to import your plugin file ('' @ file @ '') due to error:''),
      ConsoleErrorErr ImportError]"

text \<open>
  The disk agrees with what the program was told about a handler: every path the pattern
  resolver returns for it exists, and every entry listed in its folder exists in that
  folder.
\<close>

definition folder_of :: "string option \<Rightarrow> string" where
  "folder_of group2 = (case group2 of None \<Rightarrow> [] | Some f \<Rightarrow> f)"

definition found_on_disk :: "env \<Rightarrow> string \<Rightarrow> bool" where
  "found_on_disk env h =
     (list_all (\<lambda>entry. file_exists env (path_resolve env [entry]))
        (case fst (findEntriesSpecified env (JArray [JString h])) of
           Inr matched \<Rightarrow> matched
         | Inl e \<Rightarrow> []) \<and>
      (case handler_match h of
         None \<Rightarrow> True
       | Some (handlerName, group2) \<Rightarrow>
           (case readdir env (path_resolve env [strip_trailing_slash (folder_of group2)]) of
              None \<Rightarrow> True
            | Some files \<Rightarrow>
                list_all (\<lambda>file. file_exists env
                            (path_resolve env [path_join env [folder_of group2, file]])) files)))"

definition on_disk_for :: "env \<Rightarrow> function_definition \<Rightarrow> bool" where
  "on_disk_for env func =
     (case func of
        FunctionDefinitionImage \<Rightarrow> True
      | FunctionDefinitionHandler fd \<Rightarrow> found_on_disk env (handler fd))"

text \<open>
  The path the fallback makes up for a handler whose pattern matched no file, when more
  than one entry of the folder starts with the file name of the handler: the file name
  with \<^verbatim>\<open>.<backupFileType>\<close> appended, in the folder.
\<close>

definition backup_entry :: "env \<Rightarrow> string \<Rightarrow> string \<Rightarrow> string option" where
  "backup_entry env backupFileType h =
     (if fst (findEntriesSpecified env (JArray [JString h])) \<noteq> Inr [] then None
      else case handler_match h of
        None \<Rightarrow> None
      | Some (handlerName, group2) \<Rightarrow>
          (case readdir env (path_resolve env [strip_trailing_slash (folder_of group2)]) of
             None \<Rightarrow> None
           | Some files \<Rightarrow>
               (let fileName = replace_first handlerName (folder_of group2) []
                in if length (filter (\<lambda>file. startsWith file fileName) files) > 1
                   then Some (path_resolve env
                          [path_join env [folder_of group2, fileName @ ''.'' @ backupFileType]])
                   else None)))"

definition is_backup_entry ::
  "env \<Rightarrow> string \<Rightarrow> string \<Rightarrow> string \<Rightarrow> function_definition \<Rightarrow> bool" where
  "is_backup_entry env backupFileType layerId p func =
     (layered_for layerId func \<and>
      (case func of
         FunctionDefinitionImage \<Rightarrow> False
       | FunctionDefinitionHandler fd \<Rightarrow> backup_entry env backupFileType (handler fd) = Some p))"

definition example_layerA :: serverless where
  "example_layerA =
     example_service
       [example_function ''src/hello.handler'' ''LayerA'',
        FunctionDefinitionImage,
        example_function ''lib/util.main'' ''LayerA'',
        example_function ''api/hello.handler'' ''LayerA'',
        example_function ''jobs/hello.handler'' ''LayerB'']"

definition example_hello :: serverless where
  "example_hello = example_service [example_function ''src/hello.handler'' ''LayerA'']"

section \<open>Properties\<close>

subsection \<open>Sets and events\<close>

lemma js_split_not_Nil: "js_split sep s \<noteq> []"
  by (induction s) (auto split: list.splits)

lemma set_fold_Set_add: "set (fold Set_add xs acc) = set acc \<union> set xs"
  by (induction xs arbitrary: acc) (auto simp: Set_add_def)

lemma distinct_fold_Set_add: "distinct acc \<Longrightarrow> distinct (fold Set_add xs acc)"
  by (induction xs arbitrary: acc) (auto simp: Set_add_def)

lemma set_new_Set: "set (new_Set xs) = set xs"
  by (simp add: new_Set_def set_fold_Set_add)

lemma distinct_new_Set: "distinct (new_Set xs)"
  by (simp add: new_Set_def distinct_fold_Set_add)

lemma fst_with_events: "fst (case p of (r, ev') \<Rightarrow> (r, ev @ ev')) = fst p"
  by (cases p) simp

lemma snd_with_events: "snd (case p of (r, ev') \<Rightarrow> (r, ev @ ev')) = ev @ snd p"
  by (cases p) simp

lemma fst_resolveLoop_Cons:
  "fst (resolveLoop env b L (func # funcs) acc) =
     (case fst (resolveFunction env b L func acc) of
        Inl e \<Rightarrow> Inl e
      | Inr acc' \<Rightarrow> fst (resolveLoop env b L funcs acc'))"
  by (cases "resolveFunction env b L func acc")
     (auto simp: fst_with_events split: sum.splits)

lemma snd_resolveLoop_Cons:
  "snd (resolveLoop env b L (func # funcs) acc) =
     snd (resolveFunction env b L func acc) @
     (case fst (resolveFunction env b L func acc) of
        Inl e \<Rightarrow> []
      | Inr acc' \<Rightarrow> snd (resolveLoop env b L funcs acc'))"
  by (cases "resolveFunction env b L func acc")
     (auto simp: snd_with_events split: sum.splits)

subsection \<open>The dependency filter\<close>

lemma filterImports_shape:
  "filterImports isBuiltin aws cfg listsOfMods =
     filter (\<lambda>dep. dep \<notin> set aws \<and> dep \<notin> set (forceExclude cfg))
       (new_Set (map fixModuleName (filter (\<lambda>m. \<not> isBuiltin m) (concat listsOfMods))))
     @ forceInclude cfg"
  by (simp add: filterImports_def)

lemma example_filterImports:
  "filterImports (\<lambda>m. m = ''fs'') [''aws-sdk''] example_config
     [[''uuid/v4'', ''fs''], [''axios'', ''aws-sdk'']] = [''axios'', ''lodash'', ''uuid'']"
  by (simp add: filterImports_def example_config_def new_Set_def Set_add_def
      fixModuleName_def startsWith_def)

text \<open>
  C1. In the filter at the end of \<^verbatim>\<open>getExternalModules\<close> the entries of
  \<^verbatim>\<open>config.forceInclude\<close> are appended after all removals: the output is a list of
  kept names, none of them a default or excluded module, followed by \<^verbatim>\<open>forceInclude\<close> in
  its declared order. So a name listed in both \<^verbatim>\<open>forceInclude\<close> and \<^verbatim>\<open>forceExclude\<close>
  is in the output.
\<close>

theorem forceInclude_wins:
  assumes "p \<in> set (forceInclude cfg)" and "p \<in> set (forceExclude cfg)"
  shows "p \<in> set (filterImports isBuiltin aws cfg listsOfMods) \<and>
         (\<exists>kept. filterImports isBuiltin aws cfg listsOfMods = kept @ forceInclude cfg
                 \<and> set kept \<inter> (set aws \<union> set (forceExclude cfg)) = {})"
proof
  show "p \<in> set (filterImports isBuiltin aws cfg listsOfMods)"
    using assms(1) by (simp add: filterImports_shape)
next
  let ?kept = "filter (\<lambda>dep. dep \<notin> set aws \<and> dep \<notin> set (forceExclude cfg))
       (new_Set (map fixModuleName (filter (\<lambda>m. \<not> isBuiltin m) (concat listsOfMods))))"
  have "filterImports isBuiltin aws cfg listsOfMods = ?kept @ forceInclude cfg"
    by (rule filterImports_shape)
  moreover have "set ?kept \<inter> (set aws \<union> set (forceExclude cfg)) = {}"
    by auto
  ultimately show "\<exists>kept. filterImports isBuiltin aws cfg listsOfMods = kept @ forceInclude cfg
                 \<and> set kept \<inter> (set aws \<union> set (forceExclude cfg)) = {}"
    by blast
qed

theorem forceInclude_wins_witness:
  "''uuid'' \<in> set (forceInclude example_config) \<and>
   ''uuid'' \<in> set (forceExclude example_config) \<and>
   filterImports (\<lambda>m. m = ''fs'') [''aws-sdk''] example_config
     [[''uuid/v4'', ''fs''], [''axios'', ''aws-sdk'']] = [''axios'', ''lodash'', ''uuid''] \<and>
   ''uuid'' \<in> set (filterImports (\<lambda>m. m = ''fs'') [''aws-sdk''] example_config
     [[''uuid/v4'', ''fs''], [''axios'', ''aws-sdk'']])"
proof -
  have a: "''uuid'' \<in> set (forceInclude example_config)" by (simp add: example_config_def)
  have b: "''uuid'' \<in> set (forceExclude example_config)" by (simp add: example_config_def)
  show ?thesis
    using a b forceInclude_wins [OF a b, of "\<lambda>m. m = ''fs''" "[''aws-sdk'']"
        "[[''uuid/v4'', ''fs''], [''axios'', ''aws-sdk'']]"] example_filterImports
    by simp
qed

text \<open>
  C2. When the specifiers read from the build graph are \<^verbatim>\<open>uuid/v4\<close>,
  \<^verbatim>\<open>@scope/pkg/deep\<close>, \<^verbatim>\<open>uuid/v4\<close>, none of them a built-in, and \<^verbatim>\<open>forceInclude\<close> and
  \<^verbatim>\<open>forceExclude\<close> are empty, the filter returns exactly \<^verbatim>\<open>uuid\<close>, \<^verbatim>\<open>@scope/pkg\<close>. The
  result is a function of these inputs, whatever the built-in test and the default module
  list are otherwise, provided the default list holds neither of the two names.
\<close>

theorem scenario_uuid_scope:
  assumes "concat listsOfMods = [''uuid/v4'', ''@scope/pkg/deep'', ''uuid/v4'']"
    and "\<not> isBuiltin ''uuid/v4''" and "\<not> isBuiltin ''@scope/pkg/deep''"
    and "forceInclude cfg = []" and "forceExclude cfg = []"
    and "''uuid'' \<notin> set aws" and "''@scope/pkg'' \<notin> set aws"
  shows "filterImports isBuiltin aws cfg listsOfMods = [''uuid'', ''@scope/pkg'']"
  using assms
  by (simp add: filterImports_def new_Set_def Set_add_def fixModuleName_def startsWith_def)

theorem scenario_uuid_scope_witness:
  "filterImports (isBuiltinModule example_env) (DEFAULT_AWS_MODULES example_env) empty_config
     [[''uuid/v4''], [''@scope/pkg/deep'', ''uuid/v4'']] = [''uuid'', ''@scope/pkg'']"
  using scenario_uuid_scope [of "[[''uuid/v4''], [''@scope/pkg/deep'', ''uuid/v4'']]"
      "isBuiltinModule example_env" empty_config "DEFAULT_AWS_MODULES example_env"]
  by (simp add: example_env_def empty_config_def)

subsection \<open>Which functions contribute entries\<close>

lemma resolveFunction_skip:
  "\<not> layered_for L func \<Longrightarrow> fst (resolveFunction env b L func acc) = Inr acc"
  by (auto simp: layered_for_def resolveFunction_def
      split: function_definition.splits option.splits)

lemma resolveLoop_filter:
  "fst (resolveLoop env b L (filter (layered_for L) funcs) acc)
     = fst (resolveLoop env b L funcs acc)"
proof (induction funcs arbitrary: acc)
  case Nil
  show ?case by simp
next
  case (Cons func funcs)
  show ?case
  proof (cases "layered_for L func")
    case True
    then show ?thesis
      using Cons.IH
      by (simp add: fst_resolveLoop_Cons del: resolveLoop.simps split: sum.splits)
  next
    case False
    then show ?thesis
      using Cons.IH [of acc] resolveFunction_skip [OF False, of env b acc]
      by (simp add: fst_resolveLoop_Cons del: resolveLoop.simps)
  qed
qed

lemma shouldLayer_false_skipped:
  "shouldLayer fd = Some False \<Longrightarrow>
   fst (resolveFunction env b L (FunctionDefinitionHandler fd) acc) = Inr acc"
  by (rule resolveFunction_skip) (simp add: layered_for_def)

lemma other_layer_skipped:
  "layers fd = Some [Layer ''A''] \<Longrightarrow>
   fst (resolveFunction env b ''B'' (FunctionDefinitionHandler fd) acc) = Inr acc"
  by (rule resolveFunction_skip) (simp add: layered_for_def)

text \<open>
  C3. A declared function contributes to \<^verbatim>\<open>resolvedEntries(sls, L)\<close> only if it has a
  handler, its \<^verbatim>\<open>shouldLayer\<close> flag is not \<^verbatim>\<open>false\<close> and one of its layer references is
  exactly \<open>L\<close>: removing every other function from the service changes neither the
  entries returned nor whether an error is raised.
\<close>

theorem only_layered_functions_contribute:
  "fst (resolvedEntries env
          (sls\<lparr>service_functions := filter (layered_for L) (service_functions sls)\<rparr>) L)
     = fst (resolvedEntries env sls L)"
  by (simp add: resolvedEntries_def backupFileType_of_def resolveLoop_filter)

subsection \<open>No entries, no bundler\<close>

lemma resolveLoop_none_layered:
  "list_all (\<lambda>f. \<not> layered_for L f) funcs \<Longrightarrow> fst (resolveLoop env b L funcs acc) = Inr acc"
proof (induction funcs arbitrary: acc)
  case Nil
  show ?case by simp
next
  case (Cons func funcs)
  then have nl: "\<not> layered_for L func" and rest: "list_all (\<lambda>f. \<not> layered_for L f) funcs"
    by simp_all
  show ?case
    using Cons.IH [OF rest, of acc] resolveFunction_skip [OF nl, of env b acc]
    by (simp add: fst_resolveLoop_Cons del: resolveLoop.simps)
qed

lemma no_reference_no_entries:
  "list_all (\<lambda>f. \<not> layered_for L f) (service_functions sls) \<Longrightarrow>
   fst (resolvedEntries env sls L) = Inr []"
  by (simp add: resolvedEntries_def resolveLoop_none_layered)

lemma findEntriesSpecified_handler_events:
  "list_all (\<lambda>e. \<not> is_bundler_call e) (snd (findEntriesSpecified env (JArray [JString h])))"
  by (simp add: findEntriesSpecified_def is_bundler_call_def)

lemma fallbackEntry_events:
  "list_all (\<lambda>e. \<not> is_bundler_call e) (snd (fallbackEntry env b h acc))"
  by (auto simp: fallbackEntry_def is_bundler_call_def Let_def
      split: option.splits prod.splits list.splits)

lemma resolveFunction_events:
  "list_all (\<lambda>e. \<not> is_bundler_call e) (snd (resolveFunction env b L func acc))"
proof (cases func)
  case FunctionDefinitionImage
  then show ?thesis by (simp add: resolveFunction_def is_bundler_call_def)
next
  case (FunctionDefinitionHandler fd)
  show ?thesis
    using findEntriesSpecified_handler_events [of env "handler fd"]
      fallbackEntry_events [of env b "handler fd"]
    unfolding FunctionDefinitionHandler resolveFunction_def
    by (cases "findEntriesSpecified env (JArray [JString (handler fd)])")
       (auto simp: Let_def snd_with_events split: sum.splits)
qed

lemma resolveLoop_events:
  "list_all (\<lambda>e. \<not> is_bundler_call e) (snd (resolveLoop env b L funcs acc))"
proof (induction funcs arbitrary: acc)
  case Nil
  show ?case by simp
next
  case (Cons func funcs)
  show ?case
    using resolveFunction_events [of env b L func acc] Cons.IH
    by (simp add: snd_resolveLoop_Cons del: resolveLoop.simps split: sum.splits)
qed

lemma resolvedEntries_events:
  "list_all (\<lambda>e. \<not> is_bundler_call e) (snd (resolvedEntries env sls L))"
  by (simp add: resolvedEntries_def resolveLoop_events)

text \<open>
  C4. When entry resolution for the layer yields no entry, \<^verbatim>\<open>getExternalModules\<close>
  returns the empty sequence at once: it does nothing beyond what the resolution did, so
  neither the plugin file is imported nor the bundler called. Resolution yields no entry
  in particular when no declared function references the layer
  (\<open>no_reference_no_entries\<close>).
\<close>

theorem no_entries_no_bundler:
  assumes "fst (resolvedEntries env sls L) = Inr []"
  shows "getExternalModules env sls cfg L = (Inr [], snd (resolvedEntries env sls L)) \<and>
         list_all (\<lambda>e. \<not> is_bundler_call e) (snd (getExternalModules env sls cfg L))"
proof -
  have eq: "getExternalModules env sls cfg L = (Inr [], snd (resolvedEntries env sls L))"
    using assms by (cases "resolvedEntries env sls L") (simp add: getExternalModules_def)
  then show ?thesis
    using resolvedEntries_events [of env sls L] by simp
qed

theorem no_entries_no_bundler_witness:
  "getExternalModules example_env
     (example_service [example_function ''src/hello.handler'' ''LayerA'']) example_config ''LayerB''
   = (Inr [], [])"
proof -
  have none: "list_all (\<lambda>f. \<not> layered_for ''LayerB'' f)
      (service_functions (example_service [example_function ''src/hello.handler'' ''LayerA'']))"
    by (simp add: example_service_def example_function_def layered_for_def)
  have ev: "snd (resolvedEntries example_env
      (example_service [example_function ''src/hello.handler'' ''LayerA'']) ''LayerB'') = []"
    by code_simp
  show ?thesis
    using no_entries_no_bundler [OF no_reference_no_entries [OF none], of example_env example_config] ev
    by simp
qed

subsection \<open>Entries and the disk\<close>

lemma set_fold_Set_add_map:
  "set (fold (\<lambda>entry. Set_add (f entry)) xs acc) = set acc \<union> f ` set xs"
  by (induction xs arbitrary: acc) (auto simp: Set_add_def)

lemma set_Set_add: "set (Set_add x s) = insert x (set s)"
  by (auto simp: Set_add_def)

lemma fallbackEntry_sound:
  assumes "fst (fallbackEntry env b h acc) = Inr acc'" and "found_on_disk env h" and "p \<in> set acc'"
    and nomatch: "fst (findEntriesSpecified env (JArray [JString h])) = Inr []"
  shows "p \<in> set acc \<or> file_exists env p \<or> backup_entry env b h = Some p"
proof (cases "handler_match h")
  case None
  with assms show ?thesis by (simp add: fallbackEntry_def)
next
  case (Some m)
  obtain handlerName group2 where m: "m = (handlerName, group2)" by (cases m)
  have fo: "(case group2 of None \<Rightarrow> [] | Some f \<Rightarrow> f) = folder_of group2"
    by (simp add: folder_of_def)
  show ?thesis
  proof (cases "readdir env (path_resolve env [strip_trailing_slash (folder_of group2)])")
    case None
    with assms(1) Some m show ?thesis by (simp add: fallbackEntry_def fo)
  next
    case (Some files)
    note rd = this
    let ?fileName = "replace_first handlerName (folder_of group2) []"
    let ?filtered = "filter (\<lambda>file. startsWith file ?fileName) files"
    have listed: "list_all (\<lambda>file. file_exists env
                            (path_resolve env [path_join env [folder_of group2, file]])) files"
      using assms(2) \<open>handler_match h = Some m\<close> m rd by (simp add: found_on_disk_def)
    show ?thesis
    proof (cases "length ?filtered > 1")
      case True
      then show ?thesis
        using assms(1,3) nomatch \<open>handler_match h = Some m\<close> m rd
        by (auto simp: fallbackEntry_def fo backup_entry_def Let_def set_Set_add)
    next
      case False
      show ?thesis
      proof (cases ?filtered)
        case Nil
        then show ?thesis
          using assms(1) False \<open>handler_match h = Some m\<close> m rd
          by (simp add: fallbackEntry_def fo Let_def)
      next
        case (Cons first rest)
        then have "first \<in> set files"
          by (metis filter_is_subset list.set_intros(1) subsetD)
        then have "file_exists env (path_resolve env [path_join env [folder_of group2, first]])"
          using listed by (simp add: list_all_iff)
        then show ?thesis
          using assms(1,3) False Cons \<open>handler_match h = Some m\<close> m rd
          by (auto simp: fallbackEntry_def fo Let_def set_Set_add)
      qed
    qed
  qed
qed

lemma resolveFunction_sound:
  assumes "fst (resolveFunction env b L func acc) = Inr acc'" and "on_disk_for env func"
    and "p \<in> set acc'"
  shows "p \<in> set acc \<or> file_exists env p \<or> is_backup_entry env b L p func"
proof (cases func)
  case FunctionDefinitionImage
  with assms show ?thesis by (simp add: resolveFunction_def)
next
  case (FunctionDefinitionHandler fd)
  note fdef = this
  have disk: "found_on_disk env (handler fd)"
    using assms(2) fdef by (simp add: on_disk_for_def)
  obtain r ev where fe: "findEntriesSpecified env (JArray [JString (handler fd)]) = (r, ev)"
    by (cases "findEntriesSpecified env (JArray [JString (handler fd)])")
  show ?thesis
  proof (cases "(case shouldLayer fd of None \<Rightarrow> True | Some b \<Rightarrow> b) \<and>
                list_ex (\<lambda>layer. Ref layer = L) (case layers fd of None \<Rightarrow> [] | Some ls \<Rightarrow> ls)")
    case False
    then show ?thesis
      using assms(1,3) fdef by (auto simp: resolveFunction_def Let_def split: if_splits)
  next
    case True
    show ?thesis
    proof (cases r)
      case (Inl e)
      then show ?thesis
        using assms(1) fdef True fe by (simp add: resolveFunction_def Let_def)
    next
      case (Inr matched)
      have ex: "list_all (\<lambda>entry. file_exists env (path_resolve env [entry])) matched"
        using disk fe Inr by (simp add: found_on_disk_def)
      let ?added = "fold (\<lambda>entry. Set_add (path_resolve env [entry])) matched acc"
      have added: "\<And>q. q \<in> set ?added \<Longrightarrow> q \<in> set acc \<or> file_exists env q"
        using ex by (auto simp: set_fold_Set_add_map list_all_iff)
      show ?thesis
      proof (cases "matched = []")
        case False
        then have "acc' = ?added"
          using assms(1) fdef True fe Inr by (simp add: resolveFunction_def Let_def)
        then show ?thesis using added assms(3) by blast
      next
        case mt: True
        then have "fst (fallbackEntry env b (handler fd) acc) = Inr acc'"
          using assms(1) fdef True fe Inr
          by (simp add: resolveFunction_def Let_def fst_with_events)
        moreover have "fst (findEntriesSpecified env (JArray [JString (handler fd)])) = Inr []"
          using fe Inr mt by simp
        moreover have "layered_for L func"
          using True fdef by (simp add: layered_for_def split: option.splits)
        ultimately show ?thesis
          using fallbackEntry_sound [OF _ disk assms(3), of b acc] fdef
          by (auto simp: is_backup_entry_def)
      qed
    qed
  qed
qed

lemma resolveLoop_sound:
  assumes "fst (resolveLoop env b L funcs acc) = Inr out" and "list_all (on_disk_for env) funcs"
    and "p \<in> set out"
  shows "p \<in> set acc \<or> file_exists env p \<or> list_ex (is_backup_entry env b L p) funcs"
  using assms
proof (induction funcs arbitrary: acc)
  case Nil
  then show ?case by simp
next
  case (Cons func funcs)
  from Cons.prems(1) obtain acc' where
    step: "fst (resolveFunction env b L func acc) = Inr acc'" and
    rest: "fst (resolveLoop env b L funcs acc') = Inr out"
    by (auto simp: fst_resolveLoop_Cons simp del: resolveLoop.simps split: sum.splits)
  from Cons.prems(2) have d1: "on_disk_for env func" and d2: "list_all (on_disk_for env) funcs"
    by simp_all
  from Cons.IH [OF rest d2 Cons.prems(3)]
  have "p \<in> set acc' \<or> file_exists env p \<or> list_ex (is_backup_entry env b L p) funcs" .
  then show ?case
    using resolveFunction_sound [OF step d1, of p] by auto
qed

text \<open>
  C5, as amended. Every path returned by \<^verbatim>\<open>resolvedEntries\<close> exists on disk, or is the
  path the fallback made up for a declared function by appending \<^verbatim>\<open>.<backupFileType>\<close>
  to the file name because more than one entry of the folder starts with that name;
  provided the disk holds what the pattern resolver and the directory listing reported
  for the declared handlers. The made-up path is not looked up and need not exist.
\<close>

theorem entries_exist_or_backup:
  assumes "fst (resolvedEntries env sls L) = Inr entries" and "p \<in> set entries"
    and "list_all (on_disk_for env) (service_functions sls)"
  shows "file_exists env p \<or>
         list_ex (is_backup_entry env (backupFileType_of sls) L p) (service_functions sls)"
  using resolveLoop_sound [OF assms(1) [unfolded resolvedEntries_def] assms(3) assms(2)]
  by simp

lemma example_layerA_entries:
  "fst (resolvedEntries example_env example_layerA ''LayerA'')
     = Inr [''/w/src/hello.ts'', ''/w/lib/util.py'', ''/w/api/hello.default'']"
  by code_simp

lemma example_layerA_on_disk:
  "list_all (on_disk_for example_env) (service_functions example_layerA)"
  by code_simp

theorem entries_exist_or_backup_witness:
  "fst (resolvedEntries example_env example_layerA ''LayerA'')
     = Inr [''/w/src/hello.ts'', ''/w/lib/util.py'', ''/w/api/hello.default''] \<and>
   list_all (on_disk_for example_env) (service_functions example_layerA) \<and>
   (file_exists example_env ''/w/lib/util.py'' \<or>
    list_ex (is_backup_entry example_env (backupFileType_of example_layerA) ''LayerA''
      ''/w/lib/util.py'')
      (service_functions example_layerA))"
proof -
  have m: "''/w/lib/util.py'' \<in> set [''/w/src/hello.ts'', ''/w/lib/util.py'', ''/w/api/hello.default'']"
    by simp
  show ?thesis
    using entries_exist_or_backup [OF example_layerA_entries m example_layerA_on_disk]
      example_layerA_entries example_layerA_on_disk
    by simp
qed

text \<open>
  C5, as stated, fails: the folder \<^verbatim>\<open>api\<close> holds \<^verbatim>\<open>hello.py\<close> and \<^verbatim>\<open>hello.txt\<close>, the
  handler \<^verbatim>\<open>api/hello.handler\<close> matches no source file, and the entry returned is
  \<^verbatim>\<open>/w/api/hello.default\<close>, which is not on the disk.
\<close>

theorem backup_entry_missing_counterexample:
  "fst (resolvedEntries example_env
          (example_service [example_function ''api/hello.handler'' ''LayerA'']) ''LayerA'')
     = Inr [''/w/api/hello.default''] \<and>
   \<not> file_exists example_env ''/w/api/hello.default''"
  by code_simp

text \<open>
  The proviso on the pattern resolver is needed: \<^verbatim>\<open>globPromise\<close> joins the name of a match
  onto the folder part of the pattern, not onto the folder of the match, so a handler with
  a wildcard folder resolves to a path that is not the file glob found.
\<close>

lemma example_wildcard_folder:
  "fst (resolvedEntries example_env
          (example_service [example_function ''pkg/*/index.handler'' ''LayerA'']) ''LayerA'')
     = Inr [''/w/pkg/*/index.ts''] \<and>
   \<not> file_exists example_env ''/w/pkg/*/index.ts'' \<and>
   file_exists example_env ''/w/pkg/a/index.ts''"
  by code_simp

subsection \<open>Handlers that cannot be resolved\<close>

lemma unmatched_handler_skipped:
  "handler_match h = None \<Longrightarrow> fallbackEntry env b h acc = (Inr acc, [])"
  by (simp add: fallbackEntry_def)

lemma no_prefix_file_TypeError:
  assumes "handler_match h = Some (handlerName, group2)"
    and "readdir env (path_resolve env [strip_trailing_slash (folder_of group2)]) = Some files"
    and "filter (\<lambda>entry. startsWith entry (replace_first handlerName (folder_of group2) []))
           files = []"
  shows "fst (fallbackEntry env b h acc) = Inl TypeError"
  using assms by (simp add: fallbackEntry_def folder_of_def Let_def)

lemma unreadable_folder_FsError:
  assumes "handler_match h = Some (handlerName, group2)"
    and "readdir env (path_resolve env [strip_trailing_slash (folder_of group2)]) = None"
  shows "fst (fallbackEntry env b h acc) = Inl FsError"
  using assms by (simp add: fallbackEntry_def folder_of_def Let_def)

lemma example_unmatched_handler:
  "resolvedEntries example_env
     (example_service [example_function ''.hidden'' ''LayerA'',
                       example_function ''src/hello.handler'' ''LayerA'']) ''LayerA''
   = (Inr [''/w/src/hello.ts''], [Glob ''.@(ts|js)?(x)'', Glob ''src/hello.@(ts|js)?(x)''])"
  by code_simp

text \<open>
  C6 at the input where the code departs from it. The folder \<^verbatim>\<open>jobs\<close> holds only
  \<^verbatim>\<open>other.txt\<close>: the pattern of the handler \<^verbatim>\<open>jobs/hello.handler\<close> matches no file,
  the fallback pattern matches, and no listed entry starts with \<^verbatim>\<open>hello\<close>. The function
  is not skipped: \<^verbatim>\<open>resolvedEntries\<close> raises a \<^verbatim>\<open>TypeError\<close>, and the function declared
  after it is never looked at.
\<close>

theorem no_prefix_file_raises:
  "fst (findEntriesSpecified example_env (JArray [JString ''jobs/hello.handler''])) = Inr [] \<and>
   handler_match ''jobs/hello.handler'' = Some (''jobs/hello'', Some ''jobs/'') \<and>
   readdir example_env ''/w/jobs'' = Some [''other.txt''] \<and>
   resolvedEntries example_env
     (example_service [example_function ''jobs/hello.handler'' ''LayerA'',
                       example_function ''src/hello.handler'' ''LayerA'']) ''LayerA''
   = (Inl TypeError, [Glob ''jobs/hello.@(ts|js)?(x)'', Readdir ''/w/jobs''])"
  by code_simp

subsection \<open>Inputs of the wrong type\<close>

text \<open>
  C7, as amended. For every input that is neither a string nor an array (the number 123
  for one), \<^verbatim>\<open>findEntriesSpecified\<close> returns the empty sequence, raises nothing and
  touches no file; and so it does for the empty array.
\<close>

theorem bad_input_gives_empty:
  assumes "\<not> is_string v" and "\<not> is_array v"
  shows "findEntriesSpecified env v = (Inr [], []) \<and>
         findEntriesSpecified env (JArray []) = (Inr [], [])"
  using assms
  by (cases v) (simp_all add: findEntriesSpecified_def is_string_def is_array_def)

theorem bad_input_gives_empty_witness:
  "\<not> is_string (JNumber 123) \<and> \<not> is_array (JNumber 123) \<and>
   findEntriesSpecified example_env (JNumber 123) = (Inr [], []) \<and>
   findEntriesSpecified example_env (JArray []) = (Inr [], [])"
proof -
  have a: "\<not> is_string (JNumber 123)" by (simp add: is_string_def)
  have b: "\<not> is_array (JNumber 123)" by (simp add: is_array_def)
  show ?thesis using a b bad_input_gives_empty [OF a b, of example_env] by simp
qed

text \<open>
  C7, as stated, fails: the array \<^verbatim>\<open>[123]\<close> is neither a string nor a sequence of
  strings, it passes \<^verbatim>\<open>Array.isArray\<close>, and \<^verbatim>\<open>globPromise(123)\<close> rejects because a
  number has no \<^verbatim>\<open>replace\<close> method.
\<close>

theorem array_of_number_counterexample:
  "\<not> is_string (JArray [JNumber 123]) \<and> \<not> is_sequence_of_strings (JArray [JNumber 123]) \<and>
   fst (findEntriesSpecified example_env (JArray [JNumber 123])) = Inl TypeError"
  by (simp add: is_string_def is_sequence_of_strings_def findEntriesSpecified_def)

subsection \<open>fixModuleName and the normalizer of the specification\<close>

lemma js_split_slash_two:
  "sep \<in> set s \<Longrightarrow> \<exists>p q ps. js_split sep s = p # q # ps"
proof (induction s)
  case Nil
  then show ?case by simp
next
  case (Cons c cs)
  show ?case
  proof (cases "c = sep")
    case True
    then show ?thesis
      using js_split_not_Nil [of sep cs] by (cases "js_split sep cs") auto
  next
    case False
    with Cons show ?thesis by (auto split: list.splits)
  qed
qed

lemma fixModuleName_normalize_spec:
  assumes "\<not> startsWith m ''@'' \<or> CHR ''/'' \<in> set m"
  shows "fixModuleName m = normalize_spec m"
proof (cases "startsWith m ''@''")
  case False
  then show ?thesis
    using js_split_not_Nil [of "CHR ''/''" m]
    by (cases "js_split (CHR ''/'') m") (simp_all add: fixModuleName_def normalize_spec_def)
next
  case True
  with assms obtain p q ps where "js_split (CHR ''/'') m = p # q # ps"
    using js_split_slash_two by blast
  with True show ?thesis
    by (simp add: fixModuleName_def normalize_spec_def)
qed

lemma js_split_segment:
  "sep \<notin> set p \<Longrightarrow> js_split sep (p @ sep # rest) = p # js_split sep rest"
  by (induction p) auto

lemma js_split_last_segment:
  "sep \<notin> set p \<Longrightarrow> js_split sep p = [p]"
  by (induction p) auto

lemma fixModuleName_scoped:
  assumes "CHR ''/'' \<notin> set scope" and "CHR ''/'' \<notin> set pkg"
  shows "fixModuleName (''@'' @ scope @ ''/'' @ pkg @ ''/'' @ rest) = ''@'' @ scope @ ''/'' @ pkg"
    and "fixModuleName (''@'' @ scope @ ''/'' @ pkg) = ''@'' @ scope @ ''/'' @ pkg"
proof -
  have s: "CHR ''/'' \<notin> set (''@'' @ scope)" using assms by simp
  have "js_split (CHR ''/'') ((''@'' @ scope) @ CHR ''/'' # (pkg @ CHR ''/'' # rest))
        = (''@'' @ scope) # pkg # js_split (CHR ''/'') rest"
    by (simp only: js_split_segment [OF s] js_split_segment [OF assms(2)])
  then show "fixModuleName (''@'' @ scope @ ''/'' @ pkg @ ''/'' @ rest) = ''@'' @ scope @ ''/'' @ pkg"
    by (simp add: fixModuleName_def startsWith_def)
  have "js_split (CHR ''/'') ((''@'' @ scope) @ CHR ''/'' # pkg) = (''@'' @ scope) # [pkg]"
    by (simp only: js_split_segment [OF s] js_split_last_segment [OF assms(2)])
  then show "fixModuleName (''@'' @ scope @ ''/'' @ pkg) = ''@'' @ scope @ ''/'' @ pkg"
    by (simp add: fixModuleName_def startsWith_def)
qed

lemma fixModuleName_unscoped:
  assumes "CHR ''/'' \<notin> set pkg" and "\<not> startsWith pkg ''@''"
  shows "fixModuleName (pkg @ ''/'' @ rest) = pkg"
proof -
  have "js_split (CHR ''/'') (pkg @ CHR ''/'' # rest) = pkg # js_split (CHR ''/'') rest"
    using assms(1) by (rule js_split_segment)
  moreover have "\<not> startsWith (pkg @ ''/'' @ rest) ''@''"
    using assms(2) by (cases pkg) (simp_all add: startsWith_def)
  ultimately show ?thesis by (simp add: fixModuleName_def)
qed

text \<open>
  C8 at the input where the code departs from it. A specifier that starts with \<^verbatim>\<open>@\<close>
  and has no \<^verbatim>\<open>/\<close> has one segment; the first two segments joined are that segment,
  and \<^verbatim>\<open>fixModuleName\<close> returns it followed by \<^verbatim>\<open>/undefined\<close>. On every other
  specifier the two agree (\<open>fixModuleName_normalize_spec\<close>).
\<close>

theorem scope_without_package:
  "fixModuleName ''@scope'' = ''@scope/undefined'' \<and> normalize_spec ''@scope'' = ''@scope''"
  by (simp add: fixModuleName_def normalize_spec_def startsWith_def)


subsection \<open>A plugin file that cannot be loaded\<close>

lemma resolvedEntries_plugins_update:
  "resolvedEntries env (sls\<lparr>custom_esbuild_plugins := v\<rparr>) L = resolvedEntries env sls L"
  by (simp add: resolvedEntries_def backupFileType_of_def)

lemma buildOptions_plugins_update:
  "buildOptions env (sls\<lparr>custom_esbuild_plugins := v\<rparr>) entries modules = buildOptions env sls entries modules"
  by (simp add: buildOptions_def)

lemma loadPlugins_failure:
  assumes "file \<noteq> []" and "import_default env (path_resolve env [process_cwd env, file]) = None"
  shows "loadPlugins env (Some file) = (PluginArray [], import_failure_events env file)"
  using assms by (simp add: loadPlugins_def import_failure_events_def Let_def)

text \<open>
  C9. When a plugin file is configured and importing it fails, \<^verbatim>\<open>getExternalModules\<close>
  returns what it returns for the same service without a plugin file; once there are
  entries, it logs the failure and calls the bundler with its own externals plugin and
  no override.
\<close>

theorem plugin_import_failure_recovered:
  assumes "custom_esbuild_plugins sls = Some file" and "file \<noteq> []"
    and "import_default env (path_resolve env [process_cwd env, file]) = None"
  shows "fst (getExternalModules env sls cfg L)
           = fst (getExternalModules env (sls\<lparr>custom_esbuild_plugins := None\<rparr>) cfg L) \<and>
         (\<forall>entries. fst (resolvedEntries env sls L) = Inr entries \<and> entries \<noteq> [] \<longrightarrow>
            snd (getExternalModules env sls cfg L)
              = snd (resolvedEntries env sls L) @ import_failure_events env file
                @ [Build (buildOptions env sls entries [])])"
proof -
  have lp: "loadPlugins env (custom_esbuild_plugins sls) = (PluginArray [], import_failure_events env file)"
    using assms by (simp add: loadPlugins_failure)
  have lp0: "loadPlugins env None = (PluginArray [], [])"
    by (simp add: loadPlugins_def)
  show ?thesis
    by (cases "resolvedEntries env sls L")
       (auto simp: getExternalModules_def resolvedEntries_plugins_update
          buildOptions_plugins_update lp lp0 Let_def split: sum.splits option.splits)
qed

lemma example_import_failure:
  "getExternalModules example_env
      example_hello empty_config ''LayerA''
   = (Inr [''uuid''],
      [Glob ''src/hello.@(ts|js)?(x)'', Import ''/w/plugins.js'',
       LoggerError ''Unable to import your plugin file (plugins.js) due to error:'',
       ConsoleErrorErr ImportError,
       Build \<lparr> loader = None, entryPoints = [''/w/src/hello.ts''],
               plugins = [Plugin ''node-externals'' 0], metafile = True, bundle_flag = True,
               platform = ''node'', logLevel = ''silent'', outdir = ''.serverless/tmp_build'' \<rparr>])"
  by code_simp

theorem plugin_import_failure_recovered_witness:
  "getExternalModules example_env example_hello empty_config ''LayerA''
   = (Inr [''uuid''],
      [Glob ''src/hello.@(ts|js)?(x)'', Import ''/w/plugins.js'',
       LoggerError ''Unable to import your plugin file (plugins.js) due to error:'',
       ConsoleErrorErr ImportError,
       Build \<lparr> loader = None, entryPoints = [''/w/src/hello.ts''],
               plugins = [Plugin ''node-externals'' 0], metafile = True, bundle_flag = True,
               platform = ''node'', logLevel = ''silent'', outdir = ''.serverless/tmp_build'' \<rparr>]) \<and>
   fst (getExternalModules example_env (example_hello\<lparr>custom_esbuild_plugins := None\<rparr>)
          empty_config ''LayerA'')
   = Inr [''uuid'']"
proof -
  have a: "custom_esbuild_plugins example_hello = Some ''plugins.js''"
    by (simp add: example_service_def example_hello_def)
  have b: "''plugins.js'' \<noteq> []" by simp
  have c: "import_default example_env
             (path_resolve example_env [process_cwd example_env, ''plugins.js'']) = None"
    by (simp add: example_env_def)
  show ?thesis
    using plugin_import_failure_recovered [OF a b c, of empty_config "''LayerA''"]
      example_import_failure
    by simp
qed

subsection \<open>Names appear once\<close>

lemma count_list_distinct_le: "distinct xs \<Longrightarrow> count_list xs x \<le> 1"
  by (induction xs) auto

lemma count_list_notin: "x \<notin> set xs \<Longrightarrow> count_list xs x = 0"
  by (induction xs) auto

lemma count_list_append_eq: "count_list (xs @ ys) x = count_list xs x + count_list ys x"
  by (induction xs) auto

lemma filterImports_count:
  assumes "dep \<notin> set (forceInclude cfg)"
  shows "count_list (filterImports isBuiltin aws cfg listsOfMods) dep \<le> 1"
proof -
  let ?kept = "filter (\<lambda>dep. dep \<notin> set aws \<and> dep \<notin> set (forceExclude cfg))
       (new_Set (map fixModuleName (filter (\<lambda>m. \<not> isBuiltin m) (concat listsOfMods))))"
  have "distinct ?kept"
    by (simp add: distinct_new_Set)
  then have "count_list ?kept dep \<le> 1"
    by (rule count_list_distinct_le)
  moreover have "count_list (forceInclude cfg) dep = 0"
    using assms by (rule count_list_notin)
  ultimately show ?thesis
    by (simp only: filterImports_shape count_list_append_eq add_0_right)
qed

lemma filterImports_kept_distinct:
  "\<exists>kept. filterImports isBuiltin aws cfg listsOfMods = kept @ forceInclude cfg \<and> distinct kept"
  by (simp add: filterImports_shape distinct_new_Set)

lemma getExternalModules_output:
  assumes "fst (getExternalModules env sls cfg L) = Inr out"
  shows "out = [] \<or>
         (\<exists>listsOfMods. out = filterImports (isBuiltinModule env) (DEFAULT_AWS_MODULES env) cfg
                                 listsOfMods)"
  using assms
  by (auto simp: getExternalModules_def Let_def
      split: prod.splits sum.splits if_splits plugin_export.splits option.splits)

text \<open>
  C10. In the output of \<^verbatim>\<open>getExternalModules\<close> a name appears at most once apart from
  the occurrences \<^verbatim>\<open>config.forceInclude\<close> appends: the output is empty, or a list
  without repetition followed by \<^verbatim>\<open>forceInclude\<close>, so a name that is not in
  \<^verbatim>\<open>forceInclude\<close> occurs at most once. The set is built from the fixed names, after the
  built-ins are removed, so \<^verbatim>\<open>uuid/v4\<close> and \<^verbatim>\<open>uuid/v5\<close> leave one \<^verbatim>\<open>uuid\<close>.
\<close>

theorem kept_names_unique:
  assumes "fst (getExternalModules env sls cfg L) = Inr out"
  shows "(out = [] \<or> (\<exists>kept. out = kept @ forceInclude cfg \<and> distinct kept)) \<and>
         (dep \<notin> set (forceInclude cfg) \<longrightarrow> count_list out dep \<le> 1)"
proof
  show "out = [] \<or> (\<exists>kept. out = kept @ forceInclude cfg \<and> distinct kept)"
    using getExternalModules_output [OF assms] filterImports_kept_distinct by metis
next
  show "dep \<notin> set (forceInclude cfg) \<longrightarrow> count_list out dep \<le> 1"
    using getExternalModules_output [OF assms] filterImports_count by auto
qed

lemma example_uuid_once:
  "fst (getExternalModules example_env
      example_hello empty_config ''LayerA'')
   = Inr [''uuid'']"
  by code_simp

theorem kept_names_unique_witness:
  "fst (getExternalModules example_env example_hello empty_config ''LayerA'') = Inr [''uuid''] \<and>
   ''uuid'' \<notin> set (forceInclude empty_config) \<and>
   count_list [''uuid''] ''uuid'' \<le> 1"
proof -
  have n: "''uuid'' \<notin> set (forceInclude empty_config)" by (simp add: empty_config_def)
  show ?thesis
    using example_uuid_once n kept_names_unique [OF example_uuid_once, where dep = "''uuid''"]
    by simp
qed

end
